theory Spec2Isabelle
  imports Complex_Main "HOL-Library.Sublist"
begin

section \<open>Faults\<close>

text \<open>
  The JavaScript sources (\<^verbatim>\<open>server.js\<close>, \<^verbatim>\<open>s3_extractor.js\<close>) signal faults by
  throwing. A thrown value is an \<open>error\<close>; a computation that may throw has the type
  \<open>error + 'a\<close>, with \<open>Inl\<close> for the thrown value. The only property of a thrown value
  that the sources inspect is \<^verbatim>\<open>error.name === 'ThrottlingException'\<close>.
\<close>

datatype error =
    ThrottlingException
  | SyntaxError
  | TypeError
  | ReferenceError
  | Error string
  | ServiceError string

section \<open>JavaScript values\<close>

text \<open>
  The values that \<^verbatim>\<open>JSON.parse\<close> returns and that the sources pass around. \<open>JUndefined\<close> is
  the value of a missing property. A number is an exact rational: the rounding and the overflow
  of IEEE doubles are not modelled. A string is a list of 8-bit characters. An object is the list
  of its own properties in the order in which \<^verbatim>\<open>Object.entries\<close> enumerates them: the keys that
  are array indices (canonical decimal numerals below \<open>2\<^sup>3\<^sup>2 - 1\<close>) first, in ascending numeric
  order, then the other keys in the order in which they were created. \<open>obj_set\<close> is the
  assignment \<^verbatim>\<open>o[k] = v\<close> on that list, and \<open>fromEntries\<close> is \<^verbatim>\<open>Object.fromEntries\<close>.
\<close>

datatype jsval =
    JUndefined
  | JNull
  | JBool bool
  | JNum rat
  | JStr string
  | JArr "jsval list"
  | JObj "(string \<times> jsval) list"

definition is_digit :: "char \<Rightarrow> bool" where
  "is_digit c \<longleftrightarrow> c \<in> set ''0123456789''"

definition digit_val :: "char \<Rightarrow> nat" where
  "digit_val c = of_char c - 48"

definition nat_of_digits :: "string \<Rightarrow> nat" where
  "nat_of_digits s = foldl (\<lambda>n c. 10 * n + digit_val c) 0 s"

fun string_of_nat :: "nat \<Rightarrow> string" where
  "string_of_nat n =
     (if n < 10 then [''0123456789'' ! n]
      else string_of_nat (n div 10) @ [''0123456789'' ! (n mod 10)])"

declare string_of_nat.simps [simp del]

definition is_array_index :: "string \<Rightarrow> bool" where
  "is_array_index k \<longleftrightarrow>
     k \<noteq> [] \<and> list_all is_digit k \<and> (k = ''0'' \<or> hd k \<noteq> CHR ''0'')
     \<and> nat_of_digits k < 4294967295"

fun insert_index :: "string \<Rightarrow> 'v \<Rightarrow> (string \<times> 'v) list \<Rightarrow> (string \<times> 'v) list" where
  "insert_index k v [] = [(k, v)]"
| "insert_index k v (p # ps) =
     (if is_array_index (fst p) \<and> nat_of_digits (fst p) < nat_of_digits k
      then p # insert_index k v ps
      else (k, v) # p # ps)"

definition obj_set :: "(string \<times> 'v) list \<Rightarrow> string \<Rightarrow> 'v \<Rightarrow> (string \<times> 'v) list" where
  "obj_set ps k v =
     (if k \<in> set (map fst ps) then map (\<lambda>p. if fst p = k then (k, v) else p) ps
      else if is_array_index k then insert_index k v ps
      else ps @ [(k, v)])"

definition fromEntries :: "(string \<times> 'v) list \<Rightarrow> (string \<times> 'v) list" where
  "fromEntries es = foldl (\<lambda>ps (k, v). obj_set ps k v) [] es"

section \<open>JSON.parse\<close>

text \<open>
  \<^verbatim>\<open>JSON.parse\<close> as a lexer followed by an automaton over the tokens with a stack of open
  arrays and objects; \<open>None\<close> is the \<^verbatim>\<open>SyntaxError\<close>. The grammar is that of ECMA-404: white
  space is space, tab, line feed and carriage return; a number has no leading zero and needs
  digits after a point or an exponent mark; a string has no raw control character and the
  escapes \<^verbatim>\<open>\" \\ \/ \b \f \n \r \t \uXXXX\<close>. An escape \<^verbatim>\<open>\uXXXX\<close> above \<^verbatim>\<open>\u00FF\<close> has no
  8-bit character and is refused here. A repeated key keeps its first position and its last
  value, as \<open>obj_set\<close> has it.
\<close>

datatype token =
    TLBrace | TRBrace | TLBracket | TRBracket | TColon | TComma
  | TStr string | TNum rat | TTrue | TFalse | TNull

definition json_ws :: "char \<Rightarrow> bool" where
  "json_ws c \<longleftrightarrow> c \<in> set [CHR 0x20, CHR 0x09, CHR 0x0A, CHR 0x0D]"

definition hex_val :: "char \<Rightarrow> nat option" where
  "hex_val c =
     (if is_digit c then Some (digit_val c)
      else if c \<in> set ''abcdef'' then Some (of_char c - 87)
      else if c \<in> set ''ABCDEF'' then Some (of_char c - 55)
      else None)"

definition hex4 :: "char \<Rightarrow> char \<Rightarrow> char \<Rightarrow> char \<Rightarrow> nat option" where
  "hex4 a b c d =
     (case (hex_val a, hex_val b, hex_val c, hex_val d) of
        (Some x, Some y, Some z, Some w) \<Rightarrow> Some (((x * 16 + y) * 16 + z) * 16 + w)
      | _ \<Rightarrow> None)"

definition unescape :: "char \<Rightarrow> char option" where
  "unescape e =
     (if e = CHR 0x22 \<or> e = CHR 0x5C \<or> e = CHR ''/'' then Some e
      else if e = CHR ''b'' then Some (CHR 0x08)
      else if e = CHR ''f'' then Some (CHR 0x0C)
      else if e = CHR ''n'' then Some (CHR 0x0A)
      else if e = CHR ''r'' then Some (CHR 0x0D)
      else if e = CHR ''t'' then Some (CHR 0x09)
      else None)"

fun lex_string :: "string \<Rightarrow> string \<Rightarrow> (string \<times> string) option" where
  "lex_string acc [] = None"
| "lex_string acc [c] = (if c = CHR 0x22 then Some (acc, []) else None)"
| "lex_string acc (c # e # cs) =
     (if c = CHR 0x22 then Some (acc, e # cs)
      else if c = CHR 0x5C then
        (if e = CHR ''u'' then
           (case cs of
              h1 # h2 # h3 # h4 # cs' \<Rightarrow>
                (case hex4 h1 h2 h3 h4 of
                   Some n \<Rightarrow> if n < 256 then lex_string (acc @ [char_of n]) cs' else None
                 | None \<Rightarrow> None)
            | _ \<Rightarrow> None)
         else (case unescape e of Some x \<Rightarrow> lex_string (acc @ [x]) cs | None \<Rightarrow> None))
      else if of_char c < (32 :: nat) then None
      else lex_string (acc @ [c]) (e # cs))"

definition numchar :: "char \<Rightarrow> bool" where
  "numchar c \<longleftrightarrow> is_digit c \<or> c \<in> set ''+-.eE''"

definition pow10 :: "int \<Rightarrow> rat" where
  "pow10 k = (if 0 \<le> k then 10 ^ nat k else 1 / 10 ^ nat (- k))"

fun frac_part :: "string \<Rightarrow> (string \<times> string) option" where
  "frac_part [] = Some ([], [])"
| "frac_part (c # r) =
     (if c = CHR ''.'' then
        (if takeWhile is_digit r = [] then None
         else Some (takeWhile is_digit r, dropWhile is_digit r))
      else Some ([], c # r))"

fun exp_digits :: "bool \<Rightarrow> string \<Rightarrow> (int \<times> string) option" where
  "exp_digits neg r =
     (if takeWhile is_digit r = [] then None
      else Some ((if neg then - 1 else 1) * int (nat_of_digits (takeWhile is_digit r)),
                 dropWhile is_digit r))"

fun exp_part :: "string \<Rightarrow> (int \<times> string) option" where
  "exp_part [] = Some (0, [])"
| "exp_part (c # r) =
     (if c = CHR ''e'' \<or> c = CHR ''E'' then
        (case r of
           s # r' \<Rightarrow>
             if s = CHR ''-'' then exp_digits True r'
             else if s = CHR ''+'' then exp_digits False r'
             else exp_digits False r
         | [] \<Rightarrow> None)
      else Some (0, c # r))"

definition unsigned_number :: "string \<Rightarrow> rat option" where
  "unsigned_number s =
     (if takeWhile is_digit s = [] \<or> (hd s = CHR ''0'' \<and> 1 < length (takeWhile is_digit s))
      then None
      else case frac_part (dropWhile is_digit s) of
        None \<Rightarrow> None
      | Some (fp, s3) \<Rightarrow>
          (case exp_part s3 of
             None \<Rightarrow> None
           | Some (e, s4) \<Rightarrow>
               if s4 \<noteq> [] then None
               else Some (of_nat (nat_of_digits (takeWhile is_digit s @ fp))
                          * pow10 (e - int (length fp)))))"

fun json_number :: "string \<Rightarrow> rat option" where
  "json_number [] = None"
| "json_number (c # r) =
     (if c = CHR ''-'' then map_option uminus (unsigned_number r)
      else unsigned_number (c # r))"

lemma lex_string_shorter:
  "lex_string acc cs = Some (s, rest) \<Longrightarrow> length rest < length cs"
proof (induction acc cs rule: lex_string.induct)
  case (3 acc c e cs)
  then show ?case
    by (simp split: if_splits list.splits option.splits) force+
qed (simp_all split: if_splits)

function (sequential) lex :: "string \<Rightarrow> token list option" where
  "lex [] = Some []"
| "lex (c # cs) =
     (if json_ws c then lex cs
      else if c = CHR ''{'' then map_option ((#) TLBrace) (lex cs)
      else if c = CHR ''}'' then map_option ((#) TRBrace) (lex cs)
      else if c = CHR ''['' then map_option ((#) TLBracket) (lex cs)
      else if c = CHR '']'' then map_option ((#) TRBracket) (lex cs)
      else if c = CHR '':'' then map_option ((#) TColon) (lex cs)
      else if c = CHR '','' then map_option ((#) TComma) (lex cs)
      else if c = CHR 0x22 then
        (case lex_string [] cs of
           None \<Rightarrow> None
         | Some (s, rest) \<Rightarrow> map_option ((#) (TStr s)) (lex rest))
      else if c = CHR ''-'' \<or> is_digit c then
        (case json_number (c # takeWhile numchar cs) of
           None \<Rightarrow> None
         | Some q \<Rightarrow> map_option ((#) (TNum q)) (lex (dropWhile numchar cs)))
      else if take 4 (c # cs) = ''true'' then map_option ((#) TTrue) (lex (drop 3 cs))
      else if take 5 (c # cs) = ''false'' then map_option ((#) TFalse) (lex (drop 4 cs))
      else if take 4 (c # cs) = ''null'' then map_option ((#) TNull) (lex (drop 3 cs))
      else None)"
  by pat_completeness auto
termination
proof (relation "measure length")
qed (auto dest: lex_string_shorter simp: length_dropWhile_le le_imp_less_Suc)

datatype frame =
    InArray "jsval list"
  | InObject "(string \<times> jsval) list" "string option"

datatype mode = WantValue | WantValueOrClose | WantKey | WantKeyOrClose | WantColon | Have jsval

fun literal :: "token \<Rightarrow> jsval option" where
  "literal (TStr s) = Some (JStr s)"
| "literal (TNum q) = Some (JNum q)"
| "literal TTrue = Some (JBool True)"
| "literal TFalse = Some (JBool False)"
| "literal TNull = Some JNull"
| "literal _ = None"

definition value_step :: "frame list \<Rightarrow> token \<Rightarrow> (mode \<times> frame list) option" where
  "value_step st t =
     (if t = TLBracket then Some (WantValueOrClose, InArray [] # st)
      else if t = TLBrace then Some (WantKeyOrClose, InObject [] None # st)
      else map_option (\<lambda>v. (Have v, st)) (literal t))"

definition key_step :: "frame list \<Rightarrow> token \<Rightarrow> (mode \<times> frame list) option" where
  "key_step st t =
     (case t of
        TStr k \<Rightarrow>
          (case st of
             InObject ms None # st' \<Rightarrow> Some (WantColon, InObject ms (Some k) # st')
           | _ \<Rightarrow> None)
      | _ \<Rightarrow> None)"

definition after_value :: "jsval \<Rightarrow> frame list \<Rightarrow> token \<Rightarrow> (mode \<times> frame list) option" where
  "after_value v st t =
     (case st of
        InArray xs # st' \<Rightarrow>
          if t = TComma then Some (WantValue, InArray (xs @ [v]) # st')
          else if t = TRBracket then Some (Have (JArr (xs @ [v])), st')
          else None
      | InObject ms (Some k) # st' \<Rightarrow>
          if t = TComma then Some (WantKey, InObject (obj_set ms k v) None # st')
          else if t = TRBrace then Some (Have (JObj (obj_set ms k v)), st')
          else None
      | _ \<Rightarrow> None)"

definition step :: "mode \<Rightarrow> frame list \<Rightarrow> token \<Rightarrow> (mode \<times> frame list) option" where
  "step m st t =
     (case m of
        Have v \<Rightarrow> after_value v st t
      | WantColon \<Rightarrow> if t = TColon then Some (WantValue, st) else None
      | WantKey \<Rightarrow> key_step st t
      | WantKeyOrClose \<Rightarrow>
          if t = TRBrace
          then (case st of InObject ms None # st' \<Rightarrow> Some (Have (JObj ms), st') | _ \<Rightarrow> None)
          else key_step st t
      | WantValue \<Rightarrow> value_step st t
      | WantValueOrClose \<Rightarrow>
          if t = TRBracket
          then (case st of InArray xs # st' \<Rightarrow> Some (Have (JArr xs), st') | _ \<Rightarrow> None)
          else value_step st t)"


primrec parse_tokens :: "token list \<Rightarrow> mode \<Rightarrow> frame list \<Rightarrow> jsval option" where
  "parse_tokens [] m st = (case m of Have v \<Rightarrow> (if st = [] then Some v else None) | _ \<Rightarrow> None)"
| "parse_tokens (t # ts) m st =
     (case step m st t of
        None \<Rightarrow> None
      | Some (m', st') \<Rightarrow> parse_tokens ts m' st')"

definition JSON_parse :: "string \<Rightarrow> jsval option" where
  "JSON_parse s = (case lex s of None \<Rightarrow> None | Some ts \<Rightarrow> parse_tokens ts WantValue [])"

section \<open>String helpers\<close>

text \<open>
  The string methods and regular expressions of the two sanitizers, each as a scan of the
  characters. \<open>js_space\<close> is the class \<^verbatim>\<open>\s\<close> (and what \<^verbatim>\<open>trim\<close> removes) on 8-bit characters.
  \<^item> \<open>collapse_runs p False\<close> is \<^verbatim>\<open>replace(/P+/g, ' ')\<close> for a character class \<open>p\<close>;
  \<^item> \<open>drop_trailing_commas\<close> is \<^verbatim>\<open>replace(/,\s*}/g, '}')\<close>;
  \<^item> \<open>quote_bare_keys\<close> is \<^verbatim>\<open>replace(/([{,])\s*([a-zA-Z0-9_]+)\s*:/g, '$1"$2":')\<close>: at a brace or
    comma, the white space, the longest run of word characters (not empty), the white space and
    a colon are replaced; the scan goes on after the colon;
  \<^item> \<open>first_to_last_brace\<close> is \<^verbatim>\<open>match(/\{[\s\S]*\}/)\<close>: greedy, so from the first opening
    brace to the last closing brace after it.
\<close>

definition js_space :: "char \<Rightarrow> bool" where
  "js_space c \<longleftrightarrow> c \<in> set [CHR 0x09, CHR 0x0A, CHR 0x0B, CHR 0x0C, CHR 0x0D, CHR 0x20]"

definition trim :: "string \<Rightarrow> string" where
  "trim s = rev (dropWhile js_space (rev (dropWhile js_space s)))"

definition backtick :: char where
  "backtick = CHR 0x60"

definition dquote :: char where
  "dquote = CHR 0x22"

primrec collapse_runs :: "(char \<Rightarrow> bool) \<Rightarrow> bool \<Rightarrow> string \<Rightarrow> string" where
  "collapse_runs p in_run [] = []"
| "collapse_runs p in_run (c # cs) =
     (if p c then (if in_run then collapse_runs p True cs else CHR '' '' # collapse_runs p True cs)
      else c # collapse_runs p False cs)"

definition word_char :: "char \<Rightarrow> bool" where
  "word_char c \<longleftrightarrow>
     c \<in> set ''abcdefghijklmnopqrstuvwxyzABCDEFGHIJKLMNOPQRSTUVWXYZ0123456789_''"

definition trailing_comma :: "string \<Rightarrow> string option" where
  "trailing_comma cs =
     (case dropWhile js_space cs of
        [] \<Rightarrow> None
      | d # rest \<Rightarrow> if d = CHR ''}'' then Some rest else None)"

definition bare_key :: "string \<Rightarrow> (string \<times> string) option" where
  "bare_key cs =
     (let r = dropWhile js_space cs;
          w = takeWhile word_char r
      in case dropWhile js_space (dropWhile word_char r) of
           [] \<Rightarrow> None
         | d # rest \<Rightarrow> if w \<noteq> [] \<and> d = CHR '':'' then Some (w, rest) else None)"

lemma trailing_comma_shorter: "trailing_comma cs = Some rest \<Longrightarrow> length rest < length cs"
proof -
  assume a: "trailing_comma cs = Some rest"
  then obtain d where "dropWhile js_space cs = d # rest"
    by (auto simp: trailing_comma_def split: list.splits if_splits)
  then have "Suc (length rest) = length (dropWhile js_space cs)" by simp
  also have "\<dots> \<le> length cs" by (rule length_dropWhile_le)
  finally show ?thesis by simp
qed

lemma bare_key_shorter: "bare_key cs = Some (w, rest) \<Longrightarrow> length rest < length cs"
proof -
  assume a: "bare_key cs = Some (w, rest)"
  then obtain d where
    "dropWhile js_space (dropWhile word_char (dropWhile js_space cs)) = d # rest"
    by (auto simp: bare_key_def Let_def split: list.splits if_splits)
  then have "Suc (length rest) =
      length (dropWhile js_space (dropWhile word_char (dropWhile js_space cs)))" by simp
  also have "\<dots> \<le> length (dropWhile word_char (dropWhile js_space cs))"
    by (rule length_dropWhile_le)
  also have "\<dots> \<le> length (dropWhile js_space cs)" by (rule length_dropWhile_le)
  also have "\<dots> \<le> length cs" by (rule length_dropWhile_le)
  finally show ?thesis by simp
qed

function drop_trailing_commas :: "string \<Rightarrow> string" where
  "drop_trailing_commas [] = []"
| "drop_trailing_commas (c # cs) =
     (if c = CHR '','' then
        (case trailing_comma cs of
           Some rest \<Rightarrow> CHR ''}'' # drop_trailing_commas rest
         | None \<Rightarrow> c # drop_trailing_commas cs)
      else c # drop_trailing_commas cs)"
  by pat_completeness auto
termination
  by (relation "measure length") (auto dest: trailing_comma_shorter)

function quote_bare_keys :: "string \<Rightarrow> string" where
  "quote_bare_keys [] = []"
| "quote_bare_keys (c # cs) =
     (if c = CHR ''{'' \<or> c = CHR '','' then
        (case bare_key cs of
           Some (w, rest) \<Rightarrow> c # dquote # w @ [dquote, CHR '':''] @ quote_bare_keys rest
         | None \<Rightarrow> c # quote_bare_keys cs)
      else c # quote_bare_keys cs)"
  by pat_completeness auto
termination
  by (relation "measure length") (auto dest: bare_key_shorter)

definition first_to_last_brace :: "string \<Rightarrow> string option" where
  "first_to_last_brace s =
     (let r = dropWhile (\<lambda>c. c \<noteq> CHR ''{'') s
      in if r = [] \<or> CHR ''}'' \<notin> set (tl r) then None
         else Some (rev (dropWhile (\<lambda>c. c \<noteq> CHR ''}'') (rev r))))"

section \<open>Output sanitizers\<close>

text \<open>
  \<^verbatim>\<open>parseLLMOutput\<close> of \<^verbatim>\<open>server.js\<close> (lines 90-107) and of \<^verbatim>\<open>s3_extractor.js\<close> (lines 14-36).
  Both trim, remove code marks, remove line feeds, collapse white space, trim again and call
  \<^verbatim>\<open>JSON.parse\<close>, all inside one \<^verbatim>\<open>try\<close>; they differ in the code marks and in what the
  \<^verbatim>\<open>catch\<close> returns.
  \<^item> \<^verbatim>\<open>server.js\<close>: \<^verbatim>\<open>replace(/^```json|```|`/g, '')\<close> removes every backtick, and the word
    \<^verbatim>\<open>json\<close> when the text starts with the fence followed by it (\<open>strip_code_marks\<close>); the
    \<^verbatim>\<open>catch\<close> returns \<^verbatim>\<open>null\<close>.
  \<^item> \<^verbatim>\<open>s3_extractor.js\<close>: \<^verbatim>\<open>replace(/^`+|`+$/g, '')\<close> removes the backticks the text starts and
    ends with (\<open>strip_backtick_ends\<close>); the \<^verbatim>\<open>catch\<close> returns the tag set of four empty strings.
  An argument that is not a string has no \<^verbatim>\<open>trim\<close> method: the \<^verbatim>\<open>TypeError\<close> is caught like
  the \<^verbatim>\<open>SyntaxError\<close> of \<^verbatim>\<open>JSON.parse\<close>.

  \<open>repair\<close> and \<open>extract_object\<close> are the clean-up that \<^verbatim>\<open>findBestResumes\<close> applies to the model's
  text (\<^verbatim>\<open>server.js\<close> lines 254-264).
\<close>

definition fence_json :: string where
  "fence_json = [backtick, backtick, backtick] @ ''json''"

definition strip_code_marks :: "string \<Rightarrow> string" where
  "strip_code_marks s =
     filter (\<lambda>c. c \<noteq> backtick) (if take 7 s = fence_json then drop 7 s else s)"

definition clean_server :: "string \<Rightarrow> string" where
  "clean_server s =
     trim (collapse_runs js_space False
       (filter (\<lambda>c. c \<noteq> CHR 0x0A) (strip_code_marks (trim s))))"

definition strip_backtick_ends :: "string \<Rightarrow> string" where
  "strip_backtick_ends s =
     rev (dropWhile (\<lambda>c. c = backtick) (rev (dropWhile (\<lambda>c. c = backtick) s)))"

definition clean_extractor :: "string \<Rightarrow> string" where
  "clean_extractor s =
     trim (collapse_runs js_space False
       (filter (\<lambda>c. c \<noteq> CHR 0x0A) (strip_backtick_ends (trim s))))"

definition parse_cleaned :: "(string \<Rightarrow> string) \<Rightarrow> jsval \<Rightarrow> error + jsval" where
  "parse_cleaned clean responseText =
     (case responseText of
        JStr s \<Rightarrow> (case JSON_parse (clean s) of Some v \<Rightarrow> Inr v | None \<Rightarrow> Inl SyntaxError)
      | _ \<Rightarrow> Inl TypeError)"

definition parseLLMOutput_server :: "jsval \<Rightarrow> jsval" where
  "parseLLMOutput_server responseText =
     (case parse_cleaned clean_server responseText of Inr v \<Rightarrow> v | Inl e \<Rightarrow> JNull)"

definition empty_tags :: jsval where
  "empty_tags =
     JObj [(''Skills'', JStr ''''), (''Programming Languages'', JStr ''''),
           (''Years of experience'', JStr ''''), (''Job title'', JStr '''')]"

definition parseLLMOutput_extractor :: "jsval \<Rightarrow> jsval" where
  "parseLLMOutput_extractor responseText =
     (case parse_cleaned clean_extractor responseText of Inr v \<Rightarrow> v | Inl e \<Rightarrow> empty_tags)"

definition repair :: "string \<Rightarrow> string" where
  "repair content =
     trim (quote_bare_keys (drop_trailing_commas
       (map (\<lambda>c. if c = CHR 0x27 then dquote else c)
         (collapse_runs (\<lambda>c. c = CHR 0x0D \<or> c = CHR 0x0A) False content))))"

definition extract_object :: "string \<Rightarrow> string" where
  "extract_object cleanedContent =
     (case first_to_last_brace cleanedContent of Some m \<Rightarrow> m | None \<Rightarrow> cleanedContent)"

section \<open>The resilient invoker\<close>

text \<open>
  \<^verbatim>\<open>retryWithExponentialBackoff(fn, maxRetries = 5, initialDelay = 1000)\<close>, the same text in
  both files. The thunk \<^verbatim>\<open>fn\<close> has effects, so it is modelled by the outcome of each of
  its calls: \<open>fn i\<close> is what the call number \<open>i\<close> (from 0) returns or throws. The loop calls
  \<^verbatim>\<open>fn\<close> once per round and the variable \<^verbatim>\<open>retries\<close> counts the rounds that
  failed, so round \<open>retries\<close> makes call number \<open>retries\<close>. The run records every
  \<^verbatim>\<open>await delay(delayTime)\<close> in \<open>delays\<close> and counts the calls of \<^verbatim>\<open>fn\<close> in \<open>attempts\<close>.
\<close>

record 'a invocation =
  outcome :: "error + 'a"
  delays :: "nat list"
  attempts :: nat

function retry_loop ::
  "(nat \<Rightarrow> error + 'a) \<Rightarrow> nat \<Rightarrow> nat \<Rightarrow> nat \<Rightarrow> nat list \<Rightarrow> 'a invocation" where
  "retry_loop fn maxRetries initialDelay retries slept =
     (case fn retries of
        Inr v \<Rightarrow> \<lparr>outcome = Inr v, delays = slept, attempts = Suc retries\<rparr>
      | Inl e \<Rightarrow>
          if e = ThrottlingException \<and> retries < maxRetries
          then retry_loop fn maxRetries initialDelay (Suc retries)
                 (slept @ [initialDelay * 2 ^ retries])
          else \<lparr>outcome = Inl e, delays = slept, attempts = Suc retries\<rparr>)"
  by pat_completeness auto
termination
  by (relation "measure (\<lambda>(fn, maxRetries, initialDelay, retries, slept). maxRetries - retries)")
     auto

definition retryWithExponentialBackoff ::
  "(nat \<Rightarrow> error + 'a) \<Rightarrow> nat \<Rightarrow> nat \<Rightarrow> 'a invocation" where
  "retryWithExponentialBackoff fn maxRetries initialDelay =
     retry_loop fn maxRetries initialDelay 0 []"

section \<open>Tag extractors\<close>

text \<open>
  \<^verbatim>\<open>extractJdTags\<close> (\<^verbatim>\<open>server.js\<close> lines 138-181) and \<^verbatim>\<open>extractTagsFromChunks\<close>
  (\<^verbatim>\<open>s3_extractor.js\<close> lines 220-286). The Bedrock client is the environment: an argument gives,
  for each call of \<^verbatim>\<open>send\<close>, the fault it throws or the text of the response body (for
  \<^verbatim>\<open>extractTagsFromChunks\<close> as a function of the resume text put into the prompt). \<open>response_json\<close>
  is \<^verbatim>\<open>JSON.parse(responseText)\<close> and \<open>content_text\<close> is \<^verbatim>\<open>result.content[0].text\<close>, which
  throws a \<^verbatim>\<open>TypeError\<close> when it reads a property of \<^verbatim>\<open>undefined\<close> or \<^verbatim>\<open>null\<close>.

  In \<^verbatim>\<open>extractJdTags\<close> the retried thunk sends the request, parses the response and throws
  \<^verbatim>\<open>Error('Failed to parse LLM response')\<close> on a falsy parse; in \<^verbatim>\<open>extractTagsFromChunks\<close> the
  retried thunk is the \<^verbatim>\<open>send\<close> alone. Each function catches every fault of its body: the
  result type \<open>error + jsval\<close> keeps the place of a fault that would escape.
\<close>

definition and_then :: "error + 'a \<Rightarrow> ('a \<Rightarrow> error + 'b) \<Rightarrow> error + 'b" where
  "and_then r f = (case r of Inl e \<Rightarrow> Inl e | Inr x \<Rightarrow> f x)"

definition get_prop :: "jsval \<Rightarrow> string \<Rightarrow> error + jsval" where
  "get_prop v k =
     (case v of
        JUndefined \<Rightarrow> Inl TypeError
      | JNull \<Rightarrow> Inl TypeError
      | JObj ps \<Rightarrow> Inr (case map_of ps k of Some x \<Rightarrow> x | None \<Rightarrow> JUndefined)
      | _ \<Rightarrow> Inr JUndefined)"

definition get_index0 :: "jsval \<Rightarrow> error + jsval" where
  "get_index0 v =
     (case v of
        JUndefined \<Rightarrow> Inl TypeError
      | JNull \<Rightarrow> Inl TypeError
      | JObj ps \<Rightarrow> Inr (case map_of ps ''0'' of Some x \<Rightarrow> x | None \<Rightarrow> JUndefined)
      | JArr xs \<Rightarrow> Inr (case xs of [] \<Rightarrow> JUndefined | x # _ \<Rightarrow> x)
      | JStr s \<Rightarrow> Inr (case s of [] \<Rightarrow> JUndefined | c # _ \<Rightarrow> JStr [c])
      | _ \<Rightarrow> Inr JUndefined)"

definition content_text :: "jsval \<Rightarrow> error + jsval" where
  "content_text result =
     and_then (get_prop result ''content'') (\<lambda>content.
     and_then (get_index0 content) (\<lambda>first. get_prop first ''text''))"

definition response_json :: "error + string \<Rightarrow> error + jsval" where
  "response_json sent =
     and_then sent (\<lambda>responseText.
       case JSON_parse responseText of None \<Rightarrow> Inl SyntaxError | Some result \<Rightarrow> Inr result)"

definition falsy :: "jsval \<Rightarrow> bool" where
  "falsy v \<longleftrightarrow> v = JUndefined \<or> v = JNull \<or> v = JBool False \<or> v = JNum 0 \<or> v = JStr []"

definition jd_request :: "error + string \<Rightarrow> error + jsval" where
  "jd_request sent =
     and_then (response_json sent) (\<lambda>result.
     and_then (content_text result) (\<lambda>content.
       if falsy (parseLLMOutput_server content)
       then Inl (Error ''Failed to parse LLM response'')
       else Inr (parseLLMOutput_server content)))"

definition extractJdTags :: "(nat \<Rightarrow> error + string) \<Rightarrow> error + jsval" where
  "extractJdTags bedrock =
     (case outcome (retryWithExponentialBackoff (\<lambda>i. jd_request (bedrock i)) 5 1000) of
        Inr result \<Rightarrow> Inr result
      | Inl e \<Rightarrow> Inr JNull)"

primrec join :: "string \<Rightarrow> string list \<Rightarrow> string" where
  "join sep [] = []"
| "join sep (x # xs) = (if xs = [] then x else x @ sep @ join sep xs)"

definition truncatedContext :: "string list \<Rightarrow> string" where
  "truncatedContext chunks = take 12000 (join [CHR 0x0A, CHR 0x0A] chunks)"

definition extractTagsFromChunks_try ::
  "(string \<Rightarrow> nat \<Rightarrow> error + string) \<Rightarrow> string list \<Rightarrow> error + jsval" where
  "extractTagsFromChunks_try bedrock chunks =
     and_then (outcome (retryWithExponentialBackoff (bedrock (truncatedContext chunks)) 5 1000))
       (\<lambda>responseText.
     and_then (response_json (Inr responseText)) (\<lambda>result.
     and_then (content_text result) (\<lambda>content. Inr (parseLLMOutput_extractor content))))"

definition extractTagsFromChunks ::
  "(string \<Rightarrow> nat \<Rightarrow> error + string) \<Rightarrow> string list \<Rightarrow> error + jsval" where
  "extractTagsFromChunks bedrock chunks =
     (case extractTagsFromChunks_try bedrock chunks of
        Inr tags \<Rightarrow> Inr tags
      | Inl e \<Rightarrow> Inr empty_tags)"

section \<open>Relevance scorer\<close>

text \<open>
  \<^verbatim>\<open>findBestResumes(jdTags, resumeData, topn = 3, threshold = 60)\<close> (\<^verbatim>\<open>server.js\<close> lines
  183-312). The prompt reads \<^verbatim>\<open>jdTags['Skills']\<close> before the \<^verbatim>\<open>try\<close>, so \<^verbatim>\<open>null\<close> or
  \<^verbatim>\<open>undefined\<close> tags make the call fail with a \<^verbatim>\<open>TypeError\<close>; every later fault is caught and
  gives \<open>no_match\<close>. The rows of \<^verbatim>\<open>resumeData\<close> are objects; \<open>topn\<close> is an integer and
  \<open>threshold\<close> a rational.

  \<open>parsed\<close> is what \<^verbatim>\<open>parseInt\<close> returns: an integer or \<^verbatim>\<open>NaN\<close>. On a number \<^verbatim>\<open>parseInt\<close>
  reads the decimal rendering: the integer part truncated towards zero when the number is \<open>0\<close>
  or of magnitude from \<open>10\<^sup>-\<^sup>6\<close> up to \<open>10\<^sup>2\<^sup>1\<close>, and the leading digit of the exponent notation
  otherwise (\<open>sig_digit\<close>). On a string it skips white space, reads a sign, a \<^verbatim>\<open>0x\<close> prefix and
  the longest run of digits. \<open>numeric_string s\<close> is \<^verbatim>\<open>!isNaN(s)\<close> for a string: the grammar of
  \<^verbatim>\<open>Number\<close> on strings.

  \<^verbatim>\<open>Array.prototype.sort\<close> is stable: \<open>js_sort\<close> is the stable insertion sort that puts an
  element after those for which the comparator is positive. \<open>slice0 xs end\<close> is
  \<^verbatim>\<open>xs.slice(0, end)\<close>: a negative \<open>end\<close> counts from the end of the list. \<open>score_key\<close> is not
  in the source: it is the sort key under which \<open>js_sort\<close> with the source's comparator is the
  library's \<open>sort_key\<close>.
\<close>

datatype parsed = Num int | NaN

record match_result =
  selected :: "string list"
  scores :: "(string \<times> parsed) list"

fun lead_digit :: "nat \<Rightarrow> nat" where
  "lead_digit n = (if n < 10 then n else lead_digit (n div 10))"

fun ndigits :: "nat \<Rightarrow> nat" where
  "ndigits n = (if n < 10 then 1 else Suc (ndigits (n div 10)))"

declare lead_digit.simps [simp del] ndigits.simps [simp del]

definition trunc :: "rat \<Rightarrow> int" where
  "trunc q = (if 0 \<le> q then \<lfloor>q\<rfloor> else - \<lfloor>- q\<rfloor>)"

definition sig_digit :: "rat \<Rightarrow> int" where
  "sig_digit q =
     (if q < 0 then - 1 else 1) *
     int (lead_digit (nat \<lfloor>\<bar>q\<bar> * 10 ^ ndigits (nat (snd (quotient_of \<bar>q\<bar>)))\<rfloor>))"

definition parseInt_num :: "rat \<Rightarrow> parsed" where
  "parseInt_num q =
     (if q = 0 \<or> (1 / 10 ^ 6 \<le> \<bar>q\<bar> \<and> \<bar>q\<bar> < 10 ^ 21) then Num (trunc q)
      else Num (sig_digit q))"

definition is_hex :: "char \<Rightarrow> bool" where
  "is_hex c \<longleftrightarrow> c \<in> set ''0123456789abcdefABCDEF''"

definition nat_of_hex :: "string \<Rightarrow> nat" where
  "nat_of_hex s = foldl (\<lambda>n c. 16 * n + (case hex_val c of Some d \<Rightarrow> d | None \<Rightarrow> 0)) 0 s"

definition split_sign :: "string \<Rightarrow> bool \<times> string" where
  "split_sign s =
     (case s of
        [] \<Rightarrow> (False, [])
      | c # r \<Rightarrow> if c = CHR ''-'' then (True, r) else if c = CHR ''+'' then (False, r)
                  else (False, s))"

definition signed :: "bool \<Rightarrow> nat \<Rightarrow> parsed" where
  "signed neg n = Num (if neg then - int n else int n)"

definition parseInt_str :: "string \<Rightarrow> parsed" where
  "parseInt_str s =
     (case split_sign (dropWhile js_space s) of
        (neg, u) \<Rightarrow>
          if take 2 u = ''0x'' \<or> take 2 u = ''0X''
          then (if takeWhile is_hex (drop 2 u) = [] then NaN
                else signed neg (nat_of_hex (takeWhile is_hex (drop 2 u))))
          else (if takeWhile is_digit u = [] then NaN
                else signed neg (nat_of_digits (takeWhile is_digit u))))"

definition radix_literal :: "string \<Rightarrow> bool" where
  "radix_literal s \<longleftrightarrow>
     drop 2 s \<noteq> [] \<and>
     ((take 2 s = ''0x'' \<or> take 2 s = ''0X'') \<and> list_all is_hex (drop 2 s)
      \<or> (take 2 s = ''0o'' \<or> take 2 s = ''0O'') \<and> list_all (\<lambda>c. c \<in> set ''01234567'') (drop 2 s)
      \<or> (take 2 s = ''0b'' \<or> take 2 s = ''0B'') \<and> list_all (\<lambda>c. c \<in> set ''01'') (drop 2 s))"

definition decimal_literal :: "string \<Rightarrow> bool" where
  "decimal_literal s \<longleftrightarrow>
     s = ''Infinity'' \<or>
     (case dropWhile is_digit s of
        [] \<Rightarrow> takeWhile is_digit s \<noteq> []
      | c # r \<Rightarrow>
          if c = CHR ''.''
          then (takeWhile is_digit s \<noteq> [] \<or> takeWhile is_digit r \<noteq> [])
               \<and> (case exp_part (dropWhile is_digit r) of Some (e, rest) \<Rightarrow> rest = [] | None \<Rightarrow> False)
          else takeWhile is_digit s \<noteq> []
               \<and> (case exp_part (c # r) of Some (e, rest) \<Rightarrow> rest = [] | None \<Rightarrow> False))"

definition numeric_string :: "string \<Rightarrow> bool" where
  "numeric_string s \<longleftrightarrow>
     trim s = [] \<or> radix_literal (trim s) \<or> decimal_literal (snd (split_sign (trim s)))"

definition isValidFilename :: "(string \<times> jsval) list list \<Rightarrow> string \<Rightarrow> bool" where
  "isValidFilename resumeData filename \<longleftrightarrow>
     list_ex (\<lambda>row. map_of row ''resume_file_name'' = Some (JStr filename)) resumeData"

fun isValidScore :: "jsval \<Rightarrow> bool" where
  "isValidScore (JNum q) = True"
| "isValidScore (JStr s) = numeric_string s"
| "isValidScore _ = False"

fun parseInt :: "jsval \<Rightarrow> parsed" where
  "parseInt (JNum q) = parseInt_num q"
| "parseInt (JStr s) = parseInt_str s"
| "parseInt _ = NaN"

fun entries :: "jsval \<Rightarrow> (string \<times> jsval) list" where
  "entries (JObj ps) = ps"
| "entries (JArr xs) = zip (map string_of_nat [0..<length xs]) xs"
| "entries _ = []"

fun is_object :: "jsval \<Rightarrow> bool" where
  "is_object (JObj ps) = True"
| "is_object (JArr xs) = True"
| "is_object _ = False"

definition validated_scores :: "(string \<times> jsval) list list \<Rightarrow> jsval \<Rightarrow> (string \<times> parsed) list" where
  "validated_scores resumeData obj =
     fromEntries
       (map (\<lambda>(filename, score). (filename, parseInt score))
         (filter (\<lambda>(filename, score). isValidFilename resumeData filename \<and> isValidScore score)
           (entries obj)))"

definition scores_try :: "(string \<times> jsval) list list \<Rightarrow> jsval \<Rightarrow> error + (string \<times> parsed) list" where
  "scores_try resumeData content =
     (case content of
        JStr s \<Rightarrow>
          (case JSON_parse (extract_object (repair s)) of
             None \<Rightarrow> Inl SyntaxError
           | Some obj \<Rightarrow> Inr (if is_object obj then validated_scores resumeData obj else []))
      | _ \<Rightarrow> Inl TypeError)"

fun at_least :: "parsed \<Rightarrow> rat \<Rightarrow> bool" where
  "at_least (Num n) threshold = (threshold \<le> of_int n)"
| "at_least NaN threshold = False"

fun js_minus :: "parsed \<Rightarrow> parsed \<Rightarrow> parsed" where
  "js_minus (Num b) (Num a) = Num (b - a)"
| "js_minus _ _ = NaN"

fun js_positive :: "parsed \<Rightarrow> bool" where
  "js_positive (Num d) = (0 < d)"
| "js_positive NaN = False"

primrec insert_sorted :: "('a \<Rightarrow> 'a \<Rightarrow> parsed) \<Rightarrow> 'a \<Rightarrow> 'a list \<Rightarrow> 'a list" where
  "insert_sorted cmp x [] = [x]"
| "insert_sorted cmp x (y # ys) =
     (if js_positive (cmp x y) then y # insert_sorted cmp x ys else x # y # ys)"

definition js_sort :: "('a \<Rightarrow> 'a \<Rightarrow> parsed) \<Rightarrow> 'a list \<Rightarrow> 'a list" where
  "js_sort cmp xs = foldr (insert_sorted cmp) xs []"

definition slice0 :: "'a list \<Rightarrow> int \<Rightarrow> 'a list" where
  "slice0 xs end =
     (if 0 \<le> end then take (nat end) xs else take (length xs - nat (- end)) xs)"

definition validScores :: "(string \<times> parsed) list \<Rightarrow> rat \<Rightarrow> (string \<times> parsed) list" where
  "validScores scs threshold =
     js_sort (\<lambda>(f, a) (g, b). js_minus b a) (filter (\<lambda>(f, score). at_least score threshold) scs)"

definition select :: "(string \<times> parsed) list \<Rightarrow> int \<Rightarrow> rat \<Rightarrow> string list" where
  "select scs topn threshold = map fst (slice0 (validScores scs threshold) topn)"


definition no_match :: match_result where
  "no_match = \<lparr>selected = [], scores = []\<rparr>"

definition findBestResumes ::
  "(nat \<Rightarrow> error + string) \<Rightarrow> jsval \<Rightarrow> (string \<times> jsval) list list \<Rightarrow> int \<Rightarrow> rat
     \<Rightarrow> error + match_result" where
  "findBestResumes bedrock jdTags resumeData topn threshold =
     (if jdTags = JNull \<or> jdTags = JUndefined then Inl TypeError
      else
        case outcome (retryWithExponentialBackoff (\<lambda>i. response_json (bedrock i)) 5 1000) of
          Inl e \<Rightarrow> Inr no_match
        | Inr result \<Rightarrow>
            (case content_text result of
               Inl e \<Rightarrow> Inr no_match
             | Inr content \<Rightarrow>
                 (case scores_try resumeData content of
                    Inl e \<Rightarrow> Inr no_match
                  | Inr scs \<Rightarrow>
                      Inr \<lparr>selected = select scs topn threshold, scores = scs\<rparr>)))"

section \<open>Corpus store\<close>

text \<open>
  \<^verbatim>\<open>saveToExcel(results, failedFiles, outputExcel)\<close> (\<^verbatim>\<open>s3_extractor.js\<close> lines 130-199). The
  workbook file is a state: \<open>None\<close> when \<^verbatim>\<open>fs.access\<close> fails, else the workbook that
  \<^verbatim>\<open>xlsx.readFile\<close> returns, with its \<^verbatim>\<open>SheetNames\<close> and \<^verbatim>\<open>Sheets\<close>. A sheet is the list of row
  objects that \<^verbatim>\<open>sheet_to_json\<close> reads and \<^verbatim>\<open>json_to_sheet\<close> writes. \<open>io\<close> says whether
  \<^verbatim>\<open>xlsx.readFile\<close> and \<^verbatim>\<open>xlsx.writeFile\<close> throw. \<^verbatim>\<open>book_append_sheet\<close> throws when the name is
  already in \<^verbatim>\<open>SheetNames\<close>. \<open>saveToExcel_try\<close> is the body of the outer \<^verbatim>\<open>try\<close>; \<open>saveToExcel\<close>
  adds the \<^verbatim>\<open>catch\<close>, which only logs, and returns the outcome with the file as it is left.
  \<open>strict_eq\<close> is \<^verbatim>\<open>===\<close>: two object or array values are never the same reference here.

  \<open>wf_workbook\<close>, \<open>wf_file\<close> and \<open>stored_rows\<close> are not in the source: a workbook is well formed
  when every name in \<^verbatim>\<open>SheetNames\<close> has a sheet, as in a workbook read from a file, and
  \<open>stored_rows\<close> are the rows of the "Resume Tags" sheet of the file.
\<close>

type_synonym row = "(string \<times> jsval) list"

record workbook =
  SheetNames :: "string list"
  Sheets :: "string \<rightharpoonup> row list"

record io =
  read_throws :: bool
  write_throws :: bool

definition book_new :: workbook where
  "book_new = \<lparr>SheetNames = [], Sheets = Map.empty\<rparr>"

definition book_append_sheet :: "workbook \<Rightarrow> row list \<Rightarrow> string \<Rightarrow> error + workbook" where
  "book_append_sheet wb ws name =
     (if name \<in> set (SheetNames wb) then Inl (Error ''Worksheet already exists'')
      else Inr (wb\<lparr>SheetNames := SheetNames wb @ [name], Sheets := (Sheets wb)(name \<mapsto> ws)\<rparr>))"

definition remove_sheet :: "workbook \<Rightarrow> string \<Rightarrow> workbook" where
  "remove_sheet wb name =
     (case Sheets wb name of
        Some ws \<Rightarrow>
          wb\<lparr>Sheets := (Sheets wb)(name := None),
             SheetNames := filter (\<lambda>n. n \<noteq> name) (SheetNames wb)\<rparr>
      | None \<Rightarrow> wb)"

definition load_workbook :: "bool \<Rightarrow> workbook option \<Rightarrow> workbook \<times> row list" where
  "load_workbook read_fault file =
     (case file of
        None \<Rightarrow> (book_new, [])
      | Some wb \<Rightarrow>
          if read_fault then (book_new, [])
          else (wb, case Sheets wb ''Resume Tags'' of Some rows \<Rightarrow> rows | None \<Rightarrow> []))"

definition row_key :: "row \<Rightarrow> jsval" where
  "row_key r = (case map_of r ''resume_file_name'' of Some v \<Rightarrow> v | None \<Rightarrow> JUndefined)"

fun strict_eq :: "jsval \<Rightarrow> jsval \<Rightarrow> bool" where
  "strict_eq (JObj a) y = False"
| "strict_eq (JArr a) y = False"
| "strict_eq x y = (x = y)"

primrec findIndex :: "('a \<Rightarrow> bool) \<Rightarrow> 'a list \<Rightarrow> nat option" where
  "findIndex p [] = None"
| "findIndex p (x # xs) =
     (if p x then Some 0 else map_option Suc (findIndex p xs))"

definition upsert :: "row list \<Rightarrow> row \<Rightarrow> row list" where
  "upsert mergedResults newResult =
     (case findIndex (\<lambda>item. strict_eq (row_key item) (row_key newResult)) mergedResults of
        Some existingIndex \<Rightarrow> mergedResults[existingIndex := newResult]
      | None \<Rightarrow> mergedResults @ [newResult])"

definition mergeResults :: "row list \<Rightarrow> row list \<Rightarrow> row list" where
  "mergeResults existingData results = foldl upsert existingData results"

definition failed_sheet :: "string list \<Rightarrow> row list" where
  "failed_sheet failed = map (\<lambda>f. [(''file'', JStr f)]) failed"

definition saveToExcel_try ::
  "io \<Rightarrow> row list \<Rightarrow> string list \<Rightarrow> workbook option \<Rightarrow> error + workbook option" where
  "saveToExcel_try faults results failed file =
     (case load_workbook (read_throws faults) file of
        (wb, existingData) \<Rightarrow>
          and_then (book_append_sheet (remove_sheet wb ''Resume Tags'')
                      (mergeResults existingData results) ''Resume Tags'') (\<lambda>wb1.
          and_then (if failed \<noteq> []
                    then book_append_sheet (remove_sheet wb1 ''Failed Files'')
                           (failed_sheet failed) ''Failed Files''
                    else Inr wb1) (\<lambda>wb2.
          if write_throws faults then Inl (Error ''writeFile'') else Inr (Some wb2))))"

definition saveToExcel ::
  "io \<Rightarrow> row list \<Rightarrow> string list \<Rightarrow> workbook option \<Rightarrow> (error + unit) \<times> workbook option" where
  "saveToExcel faults results failed file =
     (case saveToExcel_try faults results failed file of
        Inr file' \<Rightarrow> (Inr (), file')
      | Inl e \<Rightarrow> (Inr (), file))"





section \<open>Ingestion pipeline\<close>

text \<open>
  \<^verbatim>\<open>processS3Bucket\<close> (\<^verbatim>\<open>s3_extractor.js\<close> lines 288-484). \<open>world\<close> is the environment of a run:
  the page that \<^verbatim>\<open>ListObjectsV2\<close> returns for a continuation token, whether a download succeeds,
  the chunks of a document or the fault of loading it, the Bedrock responses, and the faults of
  the workbook at the flush after each document and at the final save. \<open>run\<close> holds the local
  variables of the function and the workbook file.

  \<open>process_object\<close> is one round of the \<^verbatim>\<open>for\<close> loop (lines 316-384): \<^verbatim>\<open>continue\<close> after a
  failed download and \<^verbatim>\<open>break\<close> at the cap both skip the \<^verbatim>\<open>processedFiles.add\<close> at the end of
  the round; a fault caught at line 370 records the key in \<^verbatim>\<open>failedFiles\<close>. \<open>list_loop\<close> is the
  \<^verbatim>\<open>while (true)\<close> loop, which ends only at line 397 and may not end: it is a partial function,
  \<open>None\<close> when it runs for ever. \<open>final_save\<close> is lines 404-483: it writes the workbook, then
  line 473 reads the undeclared \<^verbatim>\<open>excelFileName\<close>, and the \<^verbatim>\<open>catch\<close> rethrows that
  \<^verbatim>\<open>ReferenceError\<close> like any fault of the save.
\<close>

record s3_page =
  Contents :: "string list"
  IsTruncated :: bool
  NextContinuationToken :: "string option"

record world =
  listObjects :: "string option \<Rightarrow> error + s3_page"
  downloadFromS3 :: "string \<Rightarrow> bool"
  load_chunks :: "string \<Rightarrow> error + string list"
  invoke_model :: "string \<Rightarrow> nat \<Rightarrow> error + string"
  flush_io :: "string \<Rightarrow> io"
  final_io :: io

record run =
  continuationToken :: "string option"
  results :: "row list"
  totalProcessed :: nat
  failedFiles :: "string list"
  processedFiles :: "string set"
  excel :: "workbook option"

datatype flow = Continue | Break

definition to_lower :: "char \<Rightarrow> char" where
  "to_lower c =
     (case map_of (zip ''ABCDEFGHIJKLMNOPQRSTUVWXYZ'' ''abcdefghijklmnopqrstuvwxyz'') c of
        Some l \<Rightarrow> l
      | None \<Rightarrow> c)"

definition is_pdf :: "string \<Rightarrow> bool" where
  "is_pdf key \<longleftrightarrow> drop (length key - 4) (map to_lower key) = ''.pdf''"

definition basename :: "string \<Rightarrow> string" where
  "basename key = rev (takeWhile (\<lambda>c. c \<noteq> CHR ''/'') (rev key))"

fun spread_entries :: "jsval \<Rightarrow> (string \<times> jsval) list" where
  "spread_entries (JObj ps) = ps"
| "spread_entries (JArr xs) = zip (map string_of_nat [0..<length xs]) xs"
| "spread_entries (JStr s) = zip (map string_of_nat [0..<length s]) (map (\<lambda>c. JStr [c]) s)"
| "spread_entries _ = []"

definition make_row :: "string \<Rightarrow> jsval \<Rightarrow> row" where
  "make_row name tags =
     foldl (\<lambda>ps (k, v). obj_set ps k v) [(''resume_file_name'', JStr name)] (spread_entries tags)"

definition record_failure :: "string \<Rightarrow> run \<Rightarrow> run" where
  "record_failure key st =
     st\<lparr>failedFiles := failedFiles st @ [key],
        processedFiles := insert key (processedFiles st)\<rparr>"

definition process_object :: "world \<Rightarrow> nat \<Rightarrow> run \<Rightarrow> string \<Rightarrow> run \<times> flow" where
  "process_object w maxResumes st key =
     (if \<not> is_pdf key then (st, Continue)
      else if key \<in> processedFiles st then (st, Continue)
      else if \<not> downloadFromS3 w key then (st\<lparr>failedFiles := failedFiles st @ [key]\<rparr>, Continue)
      else
        case and_then (load_chunks w key) (extractTagsFromChunks (invoke_model w)) of
          Inl e \<Rightarrow> (record_failure key st, Continue)
        | Inr tags \<Rightarrow>
            (case saveToExcel (flush_io w key) (results st @ [make_row (basename key) tags])
                    (failedFiles st) (excel st) of
               (Inl e, file) \<Rightarrow>
                 (record_failure key
                    (st\<lparr>results := results st @ [make_row (basename key) tags],
                        totalProcessed := Suc (totalProcessed st), excel := file\<rparr>), Continue)
             | (Inr u, file) \<Rightarrow>
                 if maxResumes \<le> Suc (totalProcessed st)
                 then (st\<lparr>results := results st @ [make_row (basename key) tags],
                          totalProcessed := Suc (totalProcessed st), excel := file,
                          continuationToken := None\<rparr>, Break)
                 else (st\<lparr>results := results st @ [make_row (basename key) tags],
                          totalProcessed := Suc (totalProcessed st), excel := file,
                          processedFiles := insert key (processedFiles st)\<rparr>, Continue)))"

primrec process_page :: "world \<Rightarrow> nat \<Rightarrow> string list \<Rightarrow> run \<Rightarrow> run" where
  "process_page w maxResumes [] st = st"
| "process_page w maxResumes (key # keys) st =
     (case process_object w maxResumes st key of
        (st', Continue) \<Rightarrow> process_page w maxResumes keys st'
      | (st', Break) \<Rightarrow> st')"

partial_function (option) list_loop :: "world \<Rightarrow> nat \<Rightarrow> run \<Rightarrow> ((error + unit) \<times> run) option" where
  "list_loop w maxResumes st =
     (case listObjects w (continuationToken st) of
        Inl e \<Rightarrow> Some (Inl e, st)
      | Inr response \<Rightarrow>
          if \<not> IsTruncated response
          then Some (Inr (), process_page w maxResumes (Contents response) st)
          else list_loop w maxResumes
                 ((process_page w maxResumes (Contents response) st)
                    \<lparr>continuationToken := NextContinuationToken response\<rparr>))"

definition final_save :: "io \<Rightarrow> run \<Rightarrow> (error + unit) \<times> run" where
  "final_save faults st =
     (if results st \<noteq> [] then
        (case saveToExcel_try faults (results st) (failedFiles st) (excel st) of
           Inl e \<Rightarrow> (Inl e, st)
         | Inr file \<Rightarrow> (Inl ReferenceError, st\<lparr>excel := file\<rparr>))
      else (Inr (), st))"

definition initial_run :: "workbook option \<Rightarrow> run" where
  "initial_run file =
     \<lparr>continuationToken = None, results = [], totalProcessed = 0, failedFiles = [],
      processedFiles = {}, excel = file\<rparr>"

definition processS3Bucket ::
  "world \<Rightarrow> string \<Rightarrow> nat \<Rightarrow> workbook option \<Rightarrow> ((error + unit) \<times> run) option" where
  "processS3Bucket w bucketName maxResumes file =
     (if bucketName = [] then Some (Inl (Error ''Bucket name is required''), initial_run file)
      else
        case list_loop w maxResumes (initial_run file) of
          None \<Rightarrow> None
        | Some (Inl e, st) \<Rightarrow> Some (Inl e, st)
        | Some (Inr u, st) \<Rightarrow> Some (final_save (final_io w) st))"

section \<open>Example inputs\<close>

text \<open>
  Concrete environments and inputs at which the theorems below are evaluated. A model response
  body is the JSON text that Bedrock returns; the scoring texts use single quotes, which the
  repair pass of \<^verbatim>\<open>findBestResumes\<close> turns into double quotes.
\<close>

definition always_throttled :: "nat \<Rightarrow> error + string" where
  "always_throttled i = Inl ThrottlingException"

definition replies :: "string \<Rightarrow> nat \<Rightarrow> error + string" where
  "replies body i = Inr body"

definition replies_for :: "string \<Rightarrow> string \<Rightarrow> nat \<Rightarrow> error + string" where
  "replies_for body context i = Inr body"

definition body_prose :: string where
  \<open>body_prose = ''{"content":[{"type":"text","text":"Sorry, I cannot help."}]}''\<close>

definition body_number :: string where
  \<open>body_number = ''{"content":[{"type":"text","text":"42"}]}''\<close>

definition no_faults :: io where
  "no_faults = \<lparr>read_throws = False, write_throws = False\<rparr>"

definition stale_book :: workbook where
  "stale_book =
     \<lparr>SheetNames = [''Resume Tags'', ''Failed Files''],
      Sheets = [''Resume Tags'' \<mapsto> [], ''Failed Files'' \<mapsto> failed_sheet [''x.pdf'']]\<rparr>"

definition row_a :: row where
  "row_a = [(''resume_file_name'', JStr ''a.pdf''), (''Skills'', JStr ''AWS'')]"





definition write_fault :: io where
  "write_fault = \<lparr>read_throws = False, write_throws = True\<rparr>"

definition failing_flush :: "string \<Rightarrow> io" where
  "failing_flush key = write_fault"

definition sound_flush :: "string \<Rightarrow> io" where
  "sound_flush key = no_faults"

definition all_downloads :: "string \<Rightarrow> bool" where
  "all_downloads key = True"

definition one_chunk :: "string \<Rightarrow> error + string list" where
  "one_chunk key = Inr [''Ten years of Python'']"

definition two_pages :: "string option \<Rightarrow> error + s3_page" where
  "two_pages token =
     (if token = None
      then Inr \<lparr>Contents = [''resume_input/a.pdf''], IsTruncated = True,
                NextContinuationToken = Some ''page-2''\<rparr>
      else Inr \<lparr>Contents = [''resume_input/b.pdf''], IsTruncated = False,
                NextContinuationToken = None\<rparr>)"

definition small_world :: world where
  "small_world =
     \<lparr>listObjects = two_pages, downloadFromS3 = all_downloads, load_chunks = one_chunk,
      invoke_model = replies_for body_prose, flush_io = sound_flush, final_io = no_faults\<rparr>"




definition fenced_reply :: string where
  \<open>fenced_reply =
     fence_json @ [CHR 0x0A] @ ''{"Skills":   "AWS"}'' @ [CHR 0x0A, backtick, backtick, backtick]\<close>




section \<open>The model of the JavaScript library on examples\<close>

text \<open>
  The definitions unfolded to evaluate the model at a concrete input, and the model of
  \<^verbatim>\<open>JSON.parse\<close>, of the regular expressions and of \<^verbatim>\<open>parseInt\<close> and \<^verbatim>\<open>isNaN\<close> at inputs
  whose JavaScript result is known.
\<close>

lemmas json_eval = JSON_parse_def is_digit_def json_ws_def numchar_def unsigned_number_def
  nat_of_digits_def digit_val_def pow10_def obj_set_def is_array_index_def hex4_def hex_val_def
  unescape_def step_def value_step_def key_step_def after_value_def

lemmas text_eval = js_space_def trim_def backtick_def dquote_def word_char_def trailing_comma_def
  bare_key_def first_to_last_brace_def fence_json_def strip_code_marks_def clean_server_def
  strip_backtick_ends_def clean_extractor_def repair_def extract_object_def

lemmas response_eval = response_json_def and_then_def content_text_def get_prop_def get_index0_def


lemma JSON_parse_accepts:
  \<open>JSON_parse ''{"a.pdf": 150, "b": [1, -2.5e1, true, null, "x y"], "c": {}}'' =
     Some (JObj [(''a.pdf'', JNum 150),
                 (''b'', JArr [JNum 1, JNum (- 25), JBool True, JNull, JStr ''x y'']),
                 (''c'', JObj [])])\<close>
  \<open>JSON_parse '' [[1], []] '' = Some (JArr [JArr [JNum 1], JArr []])\<close>
  \<open>JSON_parse ''0.5'' = Some (JNum (1 / 2))\<close>
  \<open>JSON_parse ''1E-2'' = Some (JNum (1 / 100))\<close>
  \<open>JSON_parse ([CHR 0x22, CHR ''a'', CHR 0x5C] @ ''u0041'' @ [CHR 0x5C, CHR ''n'', CHR 0x22]) =
     Some (JStr (''aA'' @ [CHR 0x0A]))\<close>
  by (simp_all add: json_eval char_of_def bit_iff_odd)

lemma JSON_parse_key_order:
  \<open>JSON_parse ''{"b": 1, "2": 2, "a": 3, "1": 4, "b": 5}'' =
     Some (JObj [(''1'', JNum 4), (''2'', JNum 2), (''b'', JNum 5), (''a'', JNum 3)])\<close>
  by (simp add: json_eval)

lemma JSON_parse_rejects:
  \<open>JSON_parse [] = None\<close>
  \<open>JSON_parse ''{'a': 1}'' = None\<close>
  \<open>JSON_parse ''{a: 1}'' = None\<close>
  \<open>JSON_parse ''{"a": 1,}'' = None\<close>
  \<open>JSON_parse ''[1,]'' = None\<close>
  \<open>JSON_parse ''[1 2]'' = None\<close>
  \<open>JSON_parse ''{"a" 1}'' = None\<close>
  \<open>JSON_parse ''{"a": 1]'' = None\<close>
  \<open>JSON_parse ''01'' = None\<close>
  \<open>JSON_parse ''1.'' = None\<close>
  \<open>JSON_parse ''-'' = None\<close>
  \<open>JSON_parse ''truex'' = None\<close>
  \<open>JSON_parse ''[] []'' = None\<close>
  \<open>JSON_parse ''json{"a": 1}'' = None\<close>
  by (simp_all add: json_eval)

lemma clean_examples:
  \<open>clean_server fenced_reply = ''{"Skills": "AWS"}''\<close>
  \<open>clean_extractor fenced_reply = ''json{"Skills": "AWS"}''\<close>
  \<open>repair ''Scores: {'a.pdf': 85, b_1 : 3 , } '' = ''Scores: {"a.pdf": 85,"b_1": 3 }''\<close>
  \<open>extract_object ''Scores: {"a.pdf": 85} and {"b.pdf": 3} done'' =
     ''{"a.pdf": 85} and {"b.pdf": 3}''\<close>
  by (simp_all add: fenced_reply_def text_eval)

lemma score_examples:
  "isValidScore (JStr '' '')" "parseInt (JStr '' '') = NaN"
  "isValidScore (JStr ''1e3'')" "parseInt (JStr ''1e3'') = Num 1"
  "isValidScore (JStr ''0x1F'')" "parseInt (JStr ''0x1F'') = Num 31"
  "isValidScore (JStr '' -12.5 '')" "parseInt (JStr '' -12.5 '') = Num (- 12)"
  "\<not> isValidScore (JStr ''85%'')" "\<not> isValidScore (JStr ''high'')"
  "\<not> isValidScore JNull" "\<not> isValidScore (JArr [JNum 85])"
  by (simp_all add: numeric_string_def radix_literal_def decimal_literal_def split_sign_def
      parseInt_str_def parseInt_num_def trunc_def signed_def nat_of_hex_def hex_val_def is_hex_def
      trim_def js_space_def is_digit_def nat_of_digits_def digit_val_def)

lemma parseInt_fraction_examples:
  "parseInt (JNum (171 / 2)) = Num 85" "parseInt (JNum (- 3 / 2)) = Num (- 1)"
proof -
  have "\<lfloor>(171 :: rat) / 2\<rfloor> = 85" "\<lfloor>(3 :: rat) / 2\<rfloor> = 1"
    using floor_divide_of_int_eq [where ?'a = rat, of 171 2]
      floor_divide_of_int_eq [where ?'a = rat, of 3 2]
    by simp_all
  then show "parseInt (JNum (171 / 2)) = Num 85" "parseInt (JNum (- 3 / 2)) = Num (- 1)"
    by (simp_all add: parseInt_num_def trunc_def)
qed

lemma slice0_examples:
  "slice0 [a, b, c] 2 = [a, b]" "slice0 [a, b, c] 5 = [a, b, c]" "slice0 [a, b, c] 0 = []"
  "slice0 [a, b, c] (- 1) = [a, b]" "slice0 [a, b, c] (- 4) = []"
  by (simp_all add: slice0_def)

section \<open>Properties of the resilient invoker\<close>

lemma retry_loop_settles:
  assumes "\<forall>i. retries \<le> i \<and> i < k \<longrightarrow> fn i = Inl ThrottlingException"
    and "fn k \<noteq> Inl ThrottlingException \<or> k = maxRetries"
    and "retries \<le> k" and "k \<le> maxRetries"
  shows "retry_loop fn maxRetries initialDelay retries slept =
         \<lparr>outcome = fn k,
          delays = slept @ map (\<lambda>i. initialDelay * 2 ^ i) [retries..<k],
          attempts = Suc k\<rparr>"
  using assms
proof (induction "k - retries" arbitrary: retries slept)
  case 0
  then have eq: "retries = k" by simp
  show ?case
  proof (cases "fn k")
    case (Inl e)
    with 0 eq show ?thesis by (subst retry_loop.simps) auto
  next
    case (Inr v)
    with eq show ?thesis by (subst retry_loop.simps) simp
  qed
next
  case (Suc d)
  then have lt: "retries < k" by simp
  with Suc.prems have thr: "fn retries = Inl ThrottlingException" by simp
  have step: "retry_loop fn maxRetries initialDelay retries slept =
        retry_loop fn maxRetries initialDelay (Suc retries) (slept @ [initialDelay * 2 ^ retries])"
    using thr lt Suc.prems(4) by (subst retry_loop.simps) simp
  have "retry_loop fn maxRetries initialDelay (Suc retries) (slept @ [initialDelay * 2 ^ retries]) =
        \<lparr>outcome = fn k,
         delays = (slept @ [initialDelay * 2 ^ retries]) @
                  map (\<lambda>i. initialDelay * 2 ^ i) [Suc retries..<k],
         attempts = Suc k\<rparr>"
    using Suc.hyps(2) Suc.prems lt by (intro Suc.hyps(1)) auto
  with step lt show ?case by (simp add: upt_conv_Cons)
qed

lemma retry_settles:
  assumes "\<forall>i<k. fn i = Inl ThrottlingException"
    and "fn k \<noteq> Inl ThrottlingException \<or> k = maxRetries" and "k \<le> maxRetries"
  shows "retryWithExponentialBackoff fn maxRetries initialDelay =
         \<lparr>outcome = fn k,
          delays = map (\<lambda>i. initialDelay * 2 ^ i) [0..<k],
          attempts = Suc k\<rparr>"
  unfolding retryWithExponentialBackoff_def
  using retry_loop_settles [of 0 k fn maxRetries initialDelay "[]"] assms by simp

text \<open>
  C6. An operation that fails with the throttling kind exactly \<open>k\<close> times, \<open>k < maxRetries\<close>,
  and then succeeds: the invoker returns the success value after exactly \<open>k\<close> sleeps of
  \<open>initialDelay\<close>, \<open>2 * initialDelay\<close>, ..., \<open>2 ^ (k - 1) * initialDelay\<close> (and \<open>k + 1\<close> calls).
  An operation whose first call fails with any other kind: the fault propagates after that
  one call, with no sleep and no retry.
\<close>

theorem retry_backoff_schedule:
  "((\<forall>i<k. fn i = Inl ThrottlingException) \<and> fn k = Inr v \<and> k < maxRetries \<longrightarrow>
      retryWithExponentialBackoff fn maxRetries initialDelay =
        \<lparr>outcome = Inr v,
         delays = map (\<lambda>i. initialDelay * 2 ^ i) [0..<k],
         attempts = Suc k\<rparr>)
   \<and> (fn 0 = Inl e \<and> e \<noteq> ThrottlingException \<longrightarrow>
      retryWithExponentialBackoff fn maxRetries initialDelay =
        \<lparr>outcome = Inl e, delays = [], attempts = 1\<rparr>)"
proof (intro conjI impI)
  assume a: "(\<forall>i<k. fn i = Inl ThrottlingException) \<and> fn k = Inr v \<and> k < maxRetries"
  then show "retryWithExponentialBackoff fn maxRetries initialDelay =
        \<lparr>outcome = Inr v, delays = map (\<lambda>i. initialDelay * 2 ^ i) [0..<k], attempts = Suc k\<rparr>"
    using retry_settles [of k fn maxRetries initialDelay] by simp
next
  assume "fn 0 = Inl e \<and> e \<noteq> ThrottlingException"
  then show "retryWithExponentialBackoff fn maxRetries initialDelay =
        \<lparr>outcome = Inl e, delays = [], attempts = 1\<rparr>"
    using retry_settles [of 0 fn maxRetries initialDelay] by simp
qed

theorem retry_backoff_schedule_witness:
  "retryWithExponentialBackoff
      (\<lambda>i. if i < 2 then Inl ThrottlingException else Inr (7::nat)) 5 1000 =
        \<lparr>outcome = Inr 7, delays = [1000, 2000], attempts = 3\<rparr>
   \<and> retryWithExponentialBackoff
      (\<lambda>i. (Inl (ServiceError ''AccessDenied'') :: error + nat)) 5 1000 =
        \<lparr>outcome = Inl (ServiceError ''AccessDenied''), delays = [], attempts = 1\<rparr>"
proof -
  have "[0..<2] = [0, Suc 0]" by (simp add: upt_conv_Cons)
  then show ?thesis
    using retry_backoff_schedule
      [of 2 "\<lambda>i. if i < 2 then Inl ThrottlingException else Inr (7::nat)" 7 5 1000
          "ServiceError ''AccessDenied''"]
      retry_backoff_schedule
      [of 0 "\<lambda>i. (Inl (ServiceError ''AccessDenied'') :: error + nat)" 0 5 1000
          "ServiceError ''AccessDenied''"]
    by simp
qed

section \<open>Exhausted retries on the query path\<close>

lemma upt_0_5: "[0..<5] = [0, 1, 2, 3, 4]"
  by (simp add: upt_conv_Cons)

lemma retry_exhausted:
  assumes "\<forall>i\<le>maxRetries. fn i = Inl ThrottlingException"
  shows "retryWithExponentialBackoff fn maxRetries initialDelay =
         \<lparr>outcome = Inl ThrottlingException,
          delays = map (\<lambda>i. initialDelay * 2 ^ i) [0..<maxRetries],
          attempts = Suc maxRetries\<rparr>"
  using retry_settles [of maxRetries fn maxRetries initialDelay] assms by simp

lemma response_json_fault: "response_json (Inl e) = Inl e"
  by (simp add: response_json_def and_then_def)

lemma jd_request_fault: "jd_request (Inl e) = Inl e"
  by (simp add: jd_request_def response_json_def and_then_def)

text \<open>
  C5 (as amended). When the Bedrock call fails with the throttling kind on every one of the six
  attempts (the first and the five retries), the invoker gives up with that fault after sleeping
  1, 2, 4, 8 and 16 seconds, and the fault does not escape the query path: \<^verbatim>\<open>extractJdTags\<close>
  catches it and returns \<^verbatim>\<open>null\<close>, and \<^verbatim>\<open>findBestResumes\<close> (called with extracted tags, as
  the endpoint does) catches it and returns \<^verbatim>\<open>{ selected: [], scores: {} }\<close>.
\<close>

theorem exhausted_throttling_absorbed:
  "(\<forall>i\<le>5. bedrock i = Inl ThrottlingException) \<longrightarrow>
     retryWithExponentialBackoff (\<lambda>i. jd_request (bedrock i)) 5 1000 =
       \<lparr>outcome = Inl ThrottlingException, delays = [1000, 2000, 4000, 8000, 16000],
        attempts = 6\<rparr>
     \<and> extractJdTags bedrock = Inr JNull
     \<and> (jdTags \<noteq> JNull \<and> jdTags \<noteq> JUndefined \<longrightarrow>
          findBestResumes bedrock jdTags resumeData topn threshold =
            Inr \<lparr>selected = [], scores = []\<rparr>)"
proof (intro impI)
  assume thr: "\<forall>i\<le>5. bedrock i = Inl ThrottlingException"
  have jd: "retryWithExponentialBackoff (\<lambda>i. jd_request (bedrock i)) 5 1000 =
       \<lparr>outcome = Inl ThrottlingException, delays = [1000, 2000, 4000, 8000, 16000],
        attempts = 6\<rparr>"
    using retry_exhausted [of 5 "\<lambda>i. jd_request (bedrock i)" 1000] thr
    by (simp add: jd_request_fault upt_0_5)
  have sc: "outcome (retryWithExponentialBackoff (\<lambda>i. response_json (bedrock i)) 5 1000) =
       Inl ThrottlingException"
    using retry_exhausted [of 5 "\<lambda>i. response_json (bedrock i)" 1000] thr
    by (simp add: response_json_fault)
  show "retryWithExponentialBackoff (\<lambda>i. jd_request (bedrock i)) 5 1000 =
       \<lparr>outcome = Inl ThrottlingException, delays = [1000, 2000, 4000, 8000, 16000],
        attempts = 6\<rparr>
     \<and> extractJdTags bedrock = Inr JNull
     \<and> (jdTags \<noteq> JNull \<and> jdTags \<noteq> JUndefined \<longrightarrow>
          findBestResumes bedrock jdTags resumeData topn threshold =
            Inr \<lparr>selected = [], scores = []\<rparr>)"
    using jd sc by (simp add: extractJdTags_def findBestResumes_def no_match_def)
qed

theorem exhausted_throttling_absorbed_witness:
  "retryWithExponentialBackoff (\<lambda>i. jd_request (always_throttled i)) 5 1000 =
       \<lparr>outcome = Inl ThrottlingException, delays = [1000, 2000, 4000, 8000, 16000],
        attempts = 6\<rparr>
   \<and> extractJdTags always_throttled = Inr JNull
   \<and> findBestResumes always_throttled (JObj []) [] 3 60 = Inr \<lparr>selected = [], scores = []\<rparr>"
  using exhausted_throttling_absorbed [of always_throttled "JObj []" "[]" 3 60]
  by (simp add: always_throttled_def)

theorem exhausted_throttling_counterexample:
  "outcome (retryWithExponentialBackoff (\<lambda>i. jd_request (always_throttled i)) 5 1000) =
     Inl ThrottlingException
   \<and> extractJdTags always_throttled \<noteq> Inl ThrottlingException
   \<and> outcome (retryWithExponentialBackoff (\<lambda>i. response_json (always_throttled i)) 5 1000) =
     Inl ThrottlingException
   \<and> findBestResumes always_throttled (JObj []) [] 3 60 \<noteq> Inl ThrottlingException"
proof -
  have jd: "outcome (retryWithExponentialBackoff (\<lambda>i. jd_request (always_throttled i)) 5 1000) =
      Inl ThrottlingException"
    using retry_exhausted [of 5 "\<lambda>i. jd_request (always_throttled i)" 1000]
    by (simp add: jd_request_fault always_throttled_def)
  have sc: "outcome (retryWithExponentialBackoff (\<lambda>i. response_json (always_throttled i)) 5 1000) =
      Inl ThrottlingException"
    using retry_exhausted [of 5 "\<lambda>i. response_json (always_throttled i)" 1000]
    by (simp add: response_json_fault always_throttled_def)
  show ?thesis
    using jd sc by (simp add: extractJdTags_def findBestResumes_def)
qed

section \<open>Tag extractors on malformed model output\<close>

lemma jd_request_content:
  assumes "response_json sent = Inr result" and "content_text result = Inr content"
  shows "jd_request sent =
         (if falsy (parseLLMOutput_server content) then Inl (Error ''Failed to parse LLM response'')
          else Inr (parseLLMOutput_server content))"
  using assms by (simp add: jd_request_def and_then_def)

lemma extractJdTags_settled:
  assumes "\<forall>i<k. bedrock i = Inl ThrottlingException" and "k \<le> 5"
    and "response_json (bedrock k) = Inr result" and "content_text result = Inr content"
  shows "extractJdTags bedrock =
         Inr (if falsy (parseLLMOutput_server content) then JNull
              else parseLLMOutput_server content)"
proof -
  have "retryWithExponentialBackoff (\<lambda>i. jd_request (bedrock i)) 5 1000 =
        \<lparr>outcome = jd_request (bedrock k),
         delays = map (\<lambda>i. 1000 * 2 ^ i) [0..<k], attempts = Suc k\<rparr>"
  proof (rule retry_settles)
    show "\<forall>i<k. jd_request (bedrock i) = Inl ThrottlingException"
      using assms(1) by (simp add: jd_request_def response_json_def and_then_def)
    show "jd_request (bedrock k) \<noteq> Inl ThrottlingException \<or> k = 5"
      using jd_request_content [OF assms(3,4)] by simp
    show "k \<le> 5" by (rule assms(2))
  qed
  then show ?thesis
    using jd_request_content [OF assms(3,4)] by (simp add: extractJdTags_def)
qed

lemma extractTagsFromChunks_settled:
  assumes "\<forall>i<k. send (truncatedContext chunks) i = Inl ThrottlingException" and "k \<le> 5"
    and "response_json (send (truncatedContext chunks) k) = Inr result"
    and "content_text result = Inr content"
  shows "extractTagsFromChunks send chunks = Inr (parseLLMOutput_extractor content)"
proof -
  obtain body where body: "send (truncatedContext chunks) k = Inr body"
    using assms(3) by (cases "send (truncatedContext chunks) k")
      (auto simp: response_json_def and_then_def)
  have "retryWithExponentialBackoff (send (truncatedContext chunks)) 5 1000 =
        \<lparr>outcome = send (truncatedContext chunks) k,
         delays = map (\<lambda>i. 1000 * 2 ^ i) [0..<k], attempts = Suc k\<rparr>"
    using assms(1,2) body by (intro retry_settles) auto
  then show ?thesis
    using body assms(3,4)
    by (simp add: extractTagsFromChunks_def extractTagsFromChunks_try_def and_then_def)
qed

text \<open>
  C7 (as amended). Neither extractor raises. Once the model's response arrives (after at most
  five throttled attempts) and carries the text \<open>content\<close>:
  \<^verbatim>\<open>extractJdTags\<close> returns \<^verbatim>\<open>null\<close> when sanitization fails or the sanitized value is falsy
  (\<^verbatim>\<open>null\<close>, \<^verbatim>\<open>false\<close>, \<^verbatim>\<open>0\<close>, the empty string), and otherwise returns the sanitized value as
  it is, whether or not it is an object;
  \<^verbatim>\<open>extractTagsFromChunks\<close> returns the tag set with four empty strings (not \<^verbatim>\<open>null\<close>) when
  sanitization fails, and otherwise returns the sanitized value as it is.
\<close>

theorem tags_unavailable:
  "(\<exists>tags. extractJdTags bedrock = Inr tags)
   \<and> (\<exists>tags. extractTagsFromChunks send chunks = Inr tags)
   \<and> ((\<forall>i<k. bedrock i = Inl ThrottlingException) \<and> k \<le> 5
        \<and> response_json (bedrock k) = Inr result \<and> content_text result = Inr content \<longrightarrow>
        (parse_cleaned clean_server content = Inl e \<longrightarrow> extractJdTags bedrock = Inr JNull)
        \<and> (parse_cleaned clean_server content = Inr v \<longrightarrow>
             extractJdTags bedrock = Inr (if falsy v then JNull else v)))
   \<and> ((\<forall>i<k. send (truncatedContext chunks) i = Inl ThrottlingException) \<and> k \<le> 5
        \<and> response_json (send (truncatedContext chunks) k) = Inr result
        \<and> content_text result = Inr content \<longrightarrow>
        (parse_cleaned clean_extractor content = Inl e \<longrightarrow>
           extractTagsFromChunks send chunks = Inr empty_tags)
        \<and> (parse_cleaned clean_extractor content = Inr v \<longrightarrow>
           extractTagsFromChunks send chunks = Inr v))"
proof (intro conjI impI)
  show "\<exists>tags. extractJdTags bedrock = Inr tags"
    by (simp add: extractJdTags_def split: sum.split)
  show "\<exists>tags. extractTagsFromChunks send chunks = Inr tags"
    by (simp add: extractTagsFromChunks_def split: sum.split)
next
  assume h: "(\<forall>i<k. bedrock i = Inl ThrottlingException) \<and> k \<le> 5
        \<and> response_json (bedrock k) = Inr result \<and> content_text result = Inr content"
  then have s: "extractJdTags bedrock =
         Inr (if falsy (parseLLMOutput_server content) then JNull
              else parseLLMOutput_server content)"
    using extractJdTags_settled [of k bedrock result content] by simp
  { assume "parse_cleaned clean_server content = Inl e"
    then show "extractJdTags bedrock = Inr JNull"
      using s by (simp add: parseLLMOutput_server_def) }
  { assume "parse_cleaned clean_server content = Inr v"
    then show "extractJdTags bedrock = Inr (if falsy v then JNull else v)"
      using s by (simp add: parseLLMOutput_server_def) }
next
  assume h: "(\<forall>i<k. send (truncatedContext chunks) i = Inl ThrottlingException) \<and> k \<le> 5
        \<and> response_json (send (truncatedContext chunks) k) = Inr result
        \<and> content_text result = Inr content"
  then have s: "extractTagsFromChunks send chunks = Inr (parseLLMOutput_extractor content)"
    using extractTagsFromChunks_settled [of k send chunks result content] by simp
  { assume "parse_cleaned clean_extractor content = Inl e"
    then show "extractTagsFromChunks send chunks = Inr empty_tags"
      using s by (simp add: parseLLMOutput_extractor_def) }
  { assume "parse_cleaned clean_extractor content = Inr v"
    then show "extractTagsFromChunks send chunks = Inr v"
      using s by (simp add: parseLLMOutput_extractor_def) }
qed

lemma body_prose_text:
  "response_json (Inr body_prose) =
     Inr (JObj [(''content'', JArr [JObj [(''type'', JStr ''text''),
                                           (''text'', JStr ''Sorry, I cannot help.'')]])])"
  by (simp add: body_prose_def response_json_def and_then_def json_eval)

lemma body_number_text:
  "response_json (Inr body_number) =
     Inr (JObj [(''content'', JArr [JObj [(''type'', JStr ''text''), (''text'', JStr ''42'')]])])"
  by (simp add: body_number_def response_json_def and_then_def json_eval)

lemma prose_unparsable:
  "parse_cleaned clean_server (JStr ''Sorry, I cannot help.'') = Inl SyntaxError"
  "parse_cleaned clean_extractor (JStr ''Sorry, I cannot help.'') = Inl SyntaxError"
  by (simp_all add: parse_cleaned_def text_eval json_eval)

lemma number_parsed:
  "parse_cleaned clean_server (JStr ''42'') = Inr (JNum 42)"
  "parse_cleaned clean_extractor (JStr ''42'') = Inr (JNum 42)"
  by (simp_all add: parse_cleaned_def text_eval json_eval)

theorem tags_unavailable_witness:
  "extractJdTags (replies body_prose) = Inr JNull
   \<and> extractTagsFromChunks (replies_for body_prose) [''Ten years of Python''] = Inr empty_tags
   \<and> extractJdTags (replies body_number) = Inr (JNum 42)
   \<and> extractTagsFromChunks (replies_for body_number) [''Ten years of Python''] = Inr (JNum 42)"
  using
    tags_unavailable [of "replies body_prose" "replies_for body_prose" "[''Ten years of Python'']" 0
      "JObj [(''content'', JArr [JObj [(''type'', JStr ''text''),
                                        (''text'', JStr ''Sorry, I cannot help.'')]])]"
      "JStr ''Sorry, I cannot help.''" SyntaxError "JNum 42"]
    tags_unavailable [of "replies body_number" "replies_for body_number" "[''Ten years of Python'']" 0
      "JObj [(''content'', JArr [JObj [(''type'', JStr ''text''), (''text'', JStr ''42'')]])]"
      "JStr ''42''" SyntaxError "JNum 42"]
    body_prose_text body_number_text prose_unparsable number_parsed
  by (simp add: replies_def replies_for_def content_text_def get_prop_def get_index0_def
      and_then_def falsy_def)

theorem tags_unavailable_counterexample:
  "extractTagsFromChunks (replies_for body_prose) [''Ten years of Python''] \<noteq> Inr JNull
   \<and> extractJdTags (replies body_number) \<noteq> Inr JNull"
proof -
  have a: "extractTagsFromChunks (replies_for body_prose) [''Ten years of Python''] =
           Inr (parseLLMOutput_extractor (JStr ''Sorry, I cannot help.''))"
    using body_prose_text
      extractTagsFromChunks_settled [of 0 "replies_for body_prose" "[''Ten years of Python'']"
        "JObj [(''content'', JArr [JObj [(''type'', JStr ''text''),
                                          (''text'', JStr ''Sorry, I cannot help.'')]])]"
        "JStr ''Sorry, I cannot help.''"]
    by (simp add: replies_for_def content_text_def get_prop_def get_index0_def and_then_def)
  have b: "extractJdTags (replies body_number) =
           Inr (if falsy (parseLLMOutput_server (JStr ''42'')) then JNull
                else parseLLMOutput_server (JStr ''42''))"
    using body_number_text
      extractJdTags_settled [of 0 "replies body_number"
        "JObj [(''content'', JArr [JObj [(''type'', JStr ''text''), (''text'', JStr ''42'')]])]"
        "JStr ''42''"]
    by (simp add: replies_def content_text_def get_prop_def get_index0_def and_then_def)
  show ?thesis
    using a b prose_unparsable number_parsed
    by (simp add: parseLLMOutput_extractor_def parseLLMOutput_server_def empty_tags_def falsy_def)
qed

section \<open>Corpus store: what a flush writes\<close>








lemma saveToExcel_returns: "fst (saveToExcel faults rs failed file) = Inr ()"
  by (simp add: saveToExcel_def split: sum.split)

lemma saveToExcel_write_fault:
  "write_throws faults \<Longrightarrow> snd (saveToExcel faults rs failed file) = file"
  by (auto simp: saveToExcel_def saveToExcel_try_def and_then_def
      split: sum.split prod.split if_splits)








section \<open>A failed flush\<close>

lemma saveToExcel_pair:
  "saveToExcel faults rs failed file = (Inr (), snd (saveToExcel faults rs failed file))"
  by (simp add: saveToExcel_def split: sum.split)

lemma process_object_flush:
  "process_object w maxResumes st key =
     (if \<not> is_pdf key then (st, Continue)
      else if key \<in> processedFiles st then (st, Continue)
      else if \<not> downloadFromS3 w key then (st\<lparr>failedFiles := failedFiles st @ [key]\<rparr>, Continue)
      else
        case and_then (load_chunks w key) (extractTagsFromChunks (invoke_model w)) of
          Inl e \<Rightarrow> (record_failure key st, Continue)
        | Inr tags \<Rightarrow>
            if maxResumes \<le> Suc (totalProcessed st)
            then (st\<lparr>results := results st @ [make_row (basename key) tags],
                     totalProcessed := Suc (totalProcessed st),
                     excel := snd (saveToExcel (flush_io w key)
                                (results st @ [make_row (basename key) tags])
                                (failedFiles st) (excel st)),
                     continuationToken := None\<rparr>, Break)
            else (st\<lparr>results := results st @ [make_row (basename key) tags],
                     totalProcessed := Suc (totalProcessed st),
                     excel := snd (saveToExcel (flush_io w key)
                                (results st @ [make_row (basename key) tags])
                                (failedFiles st) (excel st)),
                     processedFiles := insert key (processedFiles st)\<rparr>, Continue))"
  unfolding process_object_def
  by (subst saveToExcel_pair) (simp split: sum.split)

text \<open>
  C10. \<^verbatim>\<open>saveToExcel\<close> returns normally whatever reading or writing the workbook does; when the
  write fails the file is left as it was, so the records of that flush are not persisted. In the
  ingestion loop the outcome of the flush changes nothing but the file: for every behaviour
  \<open>f\<close> of the store, the step taken for a document (continue or stop) and every part of the run
  state other than the file are those of the run whose flush behaved as \<open>flush_io w\<close> says; and
  a document that is downloaded, loaded and tagged adds no entry to the failure list.
\<close>

theorem flush_failure_absorbed:
  "fst (saveToExcel faults rs failed file) = Inr ()
   \<and> (write_throws faults \<longrightarrow> snd (saveToExcel faults rs failed file) = file)
   \<and> snd (process_object (w\<lparr>flush_io := f\<rparr>) maxResumes st key) =
       snd (process_object w maxResumes st key)
   \<and> (fst (process_object (w\<lparr>flush_io := f\<rparr>) maxResumes st key))\<lparr>excel := file\<rparr> =
       (fst (process_object w maxResumes st key))\<lparr>excel := file\<rparr>
   \<and> (is_pdf key \<and> key \<notin> processedFiles st \<and> downloadFromS3 w key
        \<and> load_chunks w key = Inr chunks \<longrightarrow>
        failedFiles (fst (process_object w maxResumes st key)) = failedFiles st
        \<and> totalProcessed (fst (process_object w maxResumes st key)) = Suc (totalProcessed st))"
proof (intro conjI impI)
  show "fst (saveToExcel faults rs failed file) = Inr ()"
    by (rule saveToExcel_returns)
  show "snd (process_object (w\<lparr>flush_io := f\<rparr>) maxResumes st key) =
       snd (process_object w maxResumes st key)"
    by (simp add: process_object_flush split: sum.split)
  show "(fst (process_object (w\<lparr>flush_io := f\<rparr>) maxResumes st key))\<lparr>excel := file\<rparr> =
       (fst (process_object w maxResumes st key))\<lparr>excel := file\<rparr>"
    by (simp add: process_object_flush split: sum.split)
next
  assume "write_throws faults"
  then show "snd (saveToExcel faults rs failed file) = file"
    by (rule saveToExcel_write_fault)
next
  assume h: "is_pdf key \<and> key \<notin> processedFiles st \<and> downloadFromS3 w key
        \<and> load_chunks w key = Inr chunks"
  have "\<exists>tags. extractTagsFromChunks (invoke_model w) chunks = Inr tags"
    by (simp add: extractTagsFromChunks_def split: sum.split)
  then obtain tags where t: "extractTagsFromChunks (invoke_model w) chunks = Inr tags" ..
  show "failedFiles (fst (process_object w maxResumes st key)) = failedFiles st"
    using h t by (simp add: process_object_flush and_then_def)
  show "totalProcessed (fst (process_object w maxResumes st key)) = Suc (totalProcessed st)"
    using h t by (simp add: process_object_flush and_then_def)
qed
lemma tags_of_prose:
  "extractTagsFromChunks (replies_for body_prose) chunks = Inr empty_tags"
proof -
  have "extractTagsFromChunks (replies_for body_prose) chunks =
        Inr (parseLLMOutput_extractor (JStr ''Sorry, I cannot help.''))"
    using body_prose_text
      extractTagsFromChunks_settled [of 0 "replies_for body_prose" chunks
        "JObj [(''content'', JArr [JObj [(''type'', JStr ''text''),
                                          (''text'', JStr ''Sorry, I cannot help.'')]])]"
        "JStr ''Sorry, I cannot help.''"]
    by (simp add: replies_for_def content_text_def get_prop_def get_index0_def and_then_def)
  then show ?thesis
    using prose_unparsable by (simp add: parseLLMOutput_extractor_def)
qed

lemma is_pdf_examples: "is_pdf ''resume_input/a.pdf''" "is_pdf ''resume_input/b.pdf''"
  by (simp_all add: is_pdf_def to_lower_def)

theorem flush_failure_absorbed_witness:
  "fst (saveToExcel write_fault [row_a] [''x.pdf''] (Some stale_book)) = Inr ()
   \<and> snd (saveToExcel write_fault [row_a] [''x.pdf''] (Some stale_book)) = Some stale_book
   \<and> snd (process_object (small_world\<lparr>flush_io := failing_flush\<rparr>) 200 (initial_run None)
        ''resume_input/a.pdf'') =
      snd (process_object small_world 200 (initial_run None) ''resume_input/a.pdf'')
   \<and> failedFiles (fst (process_object (small_world\<lparr>flush_io := failing_flush\<rparr>) 200
        (initial_run None) ''resume_input/a.pdf'')) = []
   \<and> totalProcessed (fst (process_object (small_world\<lparr>flush_io := failing_flush\<rparr>) 200
        (initial_run None) ''resume_input/a.pdf'')) = 1"
  using
    flush_failure_absorbed [of write_fault "[row_a]" "[''x.pdf'']" "Some stale_book"
      failing_flush small_world 200 "initial_run None" "''resume_input/a.pdf''"
      "[''Ten years of Python'']"]
    flush_failure_absorbed [of write_fault "[row_a]" "[''x.pdf'']" "Some stale_book"
      failing_flush "small_world\<lparr>flush_io := failing_flush\<rparr>" 200 "initial_run None"
      "''resume_input/a.pdf''" "[''Ten years of Python'']"]
    is_pdf_examples
  by (simp add: write_fault_def small_world_def initial_run_def all_downloads_def one_chunk_def)
section \<open>The processed-count cap\<close>

lemma small_world_object:
  assumes "is_pdf key" and "key \<notin> processedFiles st" and "1 \<le> Suc (totalProcessed st)"
  shows "snd (process_object small_world 1 st key) = Break"
    and "totalProcessed (fst (process_object small_world 1 st key)) = Suc (totalProcessed st)"
    and "processedFiles (fst (process_object small_world 1 st key)) = processedFiles st"
    and "results (fst (process_object small_world 1 st key)) \<noteq> []"
  using assms
  by (simp_all add: process_object_flush small_world_def all_downloads_def one_chunk_def
      and_then_def tags_of_prose)

lemma small_world_page:
  assumes "is_pdf key" and "key \<notin> processedFiles st"
  shows "totalProcessed (process_page small_world 1 [key] st) = Suc (totalProcessed st)"
    and "processedFiles (process_page small_world 1 [key] st) = processedFiles st"
    and "results (process_page small_world 1 [key] st) \<noteq> []"
proof -
  obtain st' fl where p: "process_object small_world 1 st key = (st', fl)"
    by (cases "process_object small_world 1 st key")
  have "fl = Break" using small_world_object(1) [OF assms, of] p by simp
  then have "process_page small_world 1 [key] st = st'" using p by simp
  then show "totalProcessed (process_page small_world 1 [key] st) = Suc (totalProcessed st)"
    and "processedFiles (process_page small_world 1 [key] st) = processedFiles st"
    and "results (process_page small_world 1 [key] st) \<noteq> []"
    using small_world_object(2,3,4) [OF assms, of] p by simp_all
qed

text \<open>
  C4. The run below lists two pages of one resume each with \<^verbatim>\<open>maxResumes = 1\<close>. The cap is
  reached on the first page, yet the loop goes on to the second page and processes its resume
  too: two documents are processed.
\<close>

theorem cap_exceeded_across_pages:
  "map_option (totalProcessed \<circ> snd)
     (processS3Bucket small_world ''resume-ranking-bucket'' 1 None) = Some 2"
proof -
  define st1 where "st1 = (process_page small_world 1 [''resume_input/a.pdf''] (initial_run None))
        \<lparr>continuationToken := Some ''page-2''\<rparr>"
  define st2 where "st2 = process_page small_world 1 [''resume_input/b.pdf''] st1"
  have t1: "totalProcessed st1 = 1" "processedFiles st1 = {}"
    using small_world_page(1,2) [of "''resume_input/a.pdf''" "initial_run None"] is_pdf_examples
    by (simp_all del: process_page.simps add: st1_def initial_run_def)
  have t2: "totalProcessed st2 = 2" "results st2 \<noteq> []"
    using small_world_page(1,3) [of "''resume_input/b.pdf''" st1] is_pdf_examples t1
    by (simp_all del: process_page.simps add: st2_def)
  have "list_loop small_world 1 (initial_run None) = list_loop small_world 1 st1"
    by (subst list_loop.simps)
       (simp del: process_page.simps add: small_world_def two_pages_def initial_run_def st1_def)
  also have "\<dots> = Some (Inr (), st2)"
    by (subst list_loop.simps)
       (simp del: process_page.simps add: small_world_def two_pages_def st1_def st2_def)
  finally have loop: "list_loop small_world 1 (initial_run None) = Some (Inr (), st2)" .
  have "totalProcessed (snd (final_save (final_io small_world) st2)) = 2"
    using t2 by (simp add: final_save_def split: sum.split)
  then show ?thesis
    using loop by (simp add: processS3Bucket_def)
qed

section \<open>Upsert by file name\<close>

lemma strict_eq_string: "strict_eq x (JStr k) \<longleftrightarrow> x = JStr k"
  by (cases x) auto

lemma upsert_Nil: "upsert [] r = [r]"
  by (simp add: upsert_def)

lemma upsert_Cons:
  assumes "row_key r = JStr k"
  shows "upsert (x # xs) r = (if row_key x = JStr k then r # xs else x # upsert xs r)"
  using assms by (simp add: upsert_def strict_eq_string split: option.split)




lemma upsert_keeps_unique:
  assumes "row_key r = JStr k" and "distinct (map row_key xs)"
  shows "distinct (map row_key (upsert xs r))"
proof -
  have set_keys: "set (map row_key (upsert ys r)) = insert (JStr k) (set (map row_key ys))" for ys
    using assms(1) by (induction ys) (auto simp: upsert_Nil upsert_Cons [OF assms(1)])
  show ?thesis
    using assms(2)
  proof (induction xs)
    case Nil
    show ?case by (simp add: upsert_Nil)
  next
    case (Cons x xs)
    then show ?case
      using assms(1) set_keys [of xs] by (auto simp: upsert_Cons [OF assms(1)])
  qed
qed








section \<open>What the sanitizers do to the text\<close>





















section \<open>The scores object\<close>

lemma set_insert_index: "set (insert_index k v ps) = insert (k, v) (set ps)"
  by (induction ps) auto


lemma keys_overwrite: "map fst (map (\<lambda>p. if fst p = k then (k, v) else p) ps) = map fst ps"
  by (induction ps) auto


lemma keys_obj_set: "set (map fst (obj_set ps k v)) = insert k (set (map fst ps))"
proof (cases "k \<in> set (map fst ps)")
  case True
  then have "obj_set ps k v = map (\<lambda>p. if fst p = k then (k, v) else p) ps"
    by (simp add: obj_set_def)
  then have "map fst (obj_set ps k v) = map fst ps" by (simp only: keys_overwrite)
  with True show ?thesis by auto
next
  case False
  then show ?thesis
    by (cases "is_array_index k") (simp_all add: obj_set_def set_insert_index)
qed










section \<open>Ranking\<close>



















end
